theory Spec2Isabelle
  imports Complex_Main "HOL-Library.Sublist"
begin

section \<open>Python values, strings and standard output\<close>

text \<open>
  The program is the script \<^verbatim>\<open>src/data/prepare_data.py\<close>. Every function of the script
  prints a report and returns; none of them reads its argument.

  A Python \<^verbatim>\<open>str\<close> is a sequence of Unicode code points, so it is modelled as a list of
  naturals. \<open>ascii\<close> embeds an ASCII literal; the code points outside ASCII that the script
  prints are written as numbers: 10 is the newline, 178 superscript two, 215 the
  multiplication sign, 916 capital delta, 8594 the rightwards arrow, 8596 the left right
  arrow, 9472 and 9492 the box-drawing light horizontal and light up-and-right, 9552, 9553,
  9556, 9559, 9562 and 9565 the box-drawing double lines and corners, 10003 the check mark
  and 10007 the ballot X.
\<close>

type_synonym pystr = "nat list"

definition ascii :: "string \<Rightarrow> pystr" where
  "ascii s = map of_char s"

text \<open>\<^verbatim>\<open>s * n\<close> on a str.\<close>

definition py_repeat :: "pystr \<Rightarrow> nat \<Rightarrow> pystr" where
  "py_repeat s n = concat (replicate n s)"

text \<open>
  \<^verbatim>\<open>s.center(width)\<close>: CPython pads with \<^verbatim>\<open>left = marg / 2 + (marg & width & 1)\<close>
  spaces on the left and the rest on the right, and returns \<^verbatim>\<open>s\<close> itself when it is
  already \<^verbatim>\<open>width\<close> long.
\<close>

definition py_center :: "pystr \<Rightarrow> nat \<Rightarrow> pystr" where
  "py_center s width =
     (if width \<le> length s then s
      else let marg = width - length s;
               left = marg div 2 + (if odd marg \<and> odd width then 1 else 0)
           in replicate left 32 @ s @ replicate (marg - left) 32)"

text \<open>
  The values a function of the script can return: \<^verbatim>\<open>None\<close>, a number, a str, a list or a
  dict with str keys (its items in insertion order).
\<close>

datatype pyval =
    PyNone
  | PyNum rat
  | PyStr pystr
  | PyList "pyval list"
  | PyDict "(pystr \<times> pyval) list"

datatype error = KeyError | TypeError | AttributeError

text \<open>\<^verbatim>\<open>d[k]\<close> with a str key \<^verbatim>\<open>k\<close>.\<close>

fun py_getitem :: "pyval \<Rightarrow> pystr \<Rightarrow> error + pyval" where
  "py_getitem (PyDict items) k =
     (case map_of items k of None \<Rightarrow> Inl KeyError | Some v \<Rightarrow> Inr v)"
| "py_getitem _ k = Inl TypeError"

text \<open>
  \<^verbatim>\<open>list(d.keys())\<close>; a value that is not a dict has no method \<^verbatim>\<open>keys\<close>.
\<close>

fun py_keys :: "pyval \<Rightarrow> error + pystr list" where
  "py_keys (PyDict items) = Inr (map fst items)"
| "py_keys _ = Inl AttributeError"

text \<open>Every value reachable inside a value, the value itself first.\<close>

fun py_values :: "pyval \<Rightarrow> pyval list" where
  "py_values (PyList xs) = PyList xs # concat (map py_values xs)"
| "py_values (PyDict items) = PyDict items # concat (map (\<lambda>kv. py_values (snd kv)) items)"
| "py_values v = [v]"

fun is_str :: "pyval \<Rightarrow> bool" where
  "is_str (PyStr s) = True"
| "is_str _ = False"

text \<open>
  Standard output is the list of the strs printed so far, one entry for each call of
  \<^verbatim>\<open>print\<close> (which ends each of them with a newline). A function of the script takes
  the output so far and returns its value together with the extended output. The stream is
  taken to accept every code point (a UTF-8 terminal or file), so that \<^verbatim>\<open>print\<close> does not
  raise; the script has no other operation that can raise, which is why no function below
  returns an error. The model starts once the module is loaded, after its imports.
\<close>

type_synonym stdout = "pystr list"

definition py_print :: "pystr \<Rightarrow> stdout \<Rightarrow> stdout" where
  "py_print s out = out @ [s]"

text \<open>A block of statements, a \<^verbatim>\<open>for\<close> loop over a list, and a call whose value is dropped.\<close>

definition run :: "(stdout \<Rightarrow> stdout) list \<Rightarrow> stdout \<Rightarrow> stdout" where
  "run stmts out = fold (\<lambda>stmt. stmt) stmts out"

definition for_each :: "'a list \<Rightarrow> ('a \<Rightarrow> stdout \<Rightarrow> stdout) \<Rightarrow> stdout \<Rightarrow> stdout" where
  "for_each xs body out = fold body xs out"

definition call :: "(stdout \<Rightarrow> pyval \<times> stdout) \<Rightarrow> stdout \<Rightarrow> stdout" where
  "call f out = snd (f out)"

section \<open>Step 1: \<^verbatim>\<open>load_raw_data\<close>\<close>

text \<open>
  The local dict \<^verbatim>\<open>raw_data_schema\<close> is a literal. The two loops read
  \<^verbatim>\<open>raw_data_schema["columns"]\<close> and \<^verbatim>\<open>raw_data_schema["data_sources"]\<close> right after it is
  built, so they run over the two literal lists (lemma \<open>raw_data_schema_lookups\<close>).
\<close>

definition raw_data_schema_columns :: "pystr list" where
  "raw_data_schema_columns =
    [ascii ''year'',
      ascii ''state'',
      ascii ''diabetes_percentage'',
      ascii ''obesity_percentage'',
      ascii ''heart_disease_percentage'',
      ascii ''physical_inactivity_percentage'',
      ascii ''population'',
      ascii ''age_group'',
      ascii ''race_ethnicity'',
      ascii ''income_level'',
      ascii ''sample_size'']"

definition raw_data_schema_data_sources :: "pystr list" where
  "raw_data_schema_data_sources =
    [ascii ''CDC BRFSS (https://www.cdc.gov/brfss/)'',
      ascii ''CDC NHIS (https://www.cdc.gov/nchs/nhis/)'',
      ascii ''U.S. Census Bureau (population estimates)'']"

definition raw_data_schema :: pyval where
  "raw_data_schema = PyDict
     [(ascii ''columns'', PyList (map PyStr raw_data_schema_columns)),
      (ascii ''expected_rows'',
         PyStr (ascii ''50 states '' @ [215] @ ascii '' 10 years '' @ [215]
                      @ ascii '' multiple demographic groups'')),
      (ascii ''data_sources'', PyList (map PyStr raw_data_schema_data_sources))]"

definition load_raw_data :: "stdout \<Rightarrow> pyval \<times> stdout" where
  "load_raw_data out =
     (raw_data_schema, run
        [py_print (py_repeat (ascii ''='') 70),
         py_print (ascii ''STEP 1: Loading Raw Data''),
         py_print (py_repeat (ascii ''='') 70),
         py_print ([10] @ ascii ''Expected Raw Data Schema:''),
         for_each raw_data_schema_columns (\<lambda>col. py_print (ascii ''  - '' @ col)),
         py_print ([10] @ ascii ''Data Sources:''),
         for_each raw_data_schema_data_sources (\<lambda>source. py_print (ascii ''  - '' @ source))] out)"

section \<open>Steps 2 to 6: the stages that take a dataset\<close>

text \<open>
  Each stage has one parameter and never mentions it in its body, so the model takes an
  argument of any type. \<^verbatim>\<open>main\<close> passes \<^verbatim>\<open>None\<close>. A body that ends without
  \<^verbatim>\<open>return\<close> returns \<^verbatim>\<open>None\<close>.
\<close>

definition cleaning_operations :: "pystr list" where
  "cleaning_operations =
    [[10003] @ ascii '' Remove duplicate records'',
      [10003] @ ascii '' Handle missing values (impute or exclude)'',
      [10003] @ ascii '' Standardize state name formatting'',
      [10003] @ ascii '' Validate percentage ranges (0-100%)'',
      [10003] @ ascii '' Ensure population values are positive integers'',
      [10003] @ ascii '' Round percentages to 1 decimal place'',
      [10003] @ ascii '' Remove outliers using IQR method'',
      [10003] @ ascii '' Cross-validate with official CDC figures'']"

definition clean_and_standardize_data :: "'a \<Rightarrow> stdout \<Rightarrow> pyval \<times> stdout" where
  "clean_and_standardize_data df_raw out =
     (PyNone, run
        [py_print ([10] @ py_repeat (ascii ''='') 70),
         py_print (ascii ''STEP 2: Data Cleaning and Standardization''),
         py_print (py_repeat (ascii ''='') 70),
         py_print ([10] @ ascii ''Cleaning Operations Applied:''),
         for_each cleaning_operations (\<lambda>op. py_print (ascii ''  '' @ op)),
         py_print ([10] @ ascii ''Data Quality Metrics:''),
         py_print (ascii ''  - Completeness: >99% (minimal missing values)''),
         py_print (ascii ''  - Duplicates removed: Verified unique by (year, state, demographic_group)''),
         py_print (ascii ''  - Outliers detected: IQR method with 1.5x multiplier''),
         py_print (ascii ''  - Validation: All values cross-checked against CDC published reports'')] out)"

definition aggregation_methods :: "pystr list" where
  "aggregation_methods =
    [ascii ''Mean (arithmetic average) - default for most metrics'',
      ascii ''Population-weighted average - for national estimates'',
      ascii ''Median - used for robustness check against outliers'',
      ascii ''Standard Deviation - measure of variability within state'',
      ascii ''Min/Max - range of observed values'',
      ascii ''Mode (most frequent value) - for categorical data'']"

definition aggregate_state_level_data :: "'a \<Rightarrow> stdout \<Rightarrow> pyval \<times> stdout" where
  "aggregate_state_level_data df_cleaned out =
     (PyNone, run
        [py_print ([10] @ py_repeat (ascii ''='') 70),
         py_print (ascii ''STEP 3: State-Level Aggregation''),
         py_print (py_repeat (ascii ''='') 70),
         py_print ([10] @ ascii ''Aggregation Methods:''),
         for_each aggregation_methods (\<lambda>method. py_print (ascii ''  - '' @ method)),
         py_print ([10] @ ascii ''Key Calculations (most recent year):''),
         py_print (ascii ''  - Total States: 50''),
         py_print (ascii ''  - Diabetes prevalence range: 8.4% to 14.2%''),
         py_print (ascii ''  - Obesity prevalence range: 27.5% to 40.8%''),
         py_print (ascii ''  - Heart disease range: 3.6% to 6.3%''),
         py_print (ascii ''  - Physical inactivity range: 21.9% to 37.5%'')] out)"

definition calculate_national_trends :: "'a \<Rightarrow> stdout \<Rightarrow> pyval \<times> stdout" where
  "calculate_national_trends df_cleaned out =
     (PyNone, run
        [py_print ([10] @ py_repeat (ascii ''='') 70),
         py_print (ascii ''STEP 4: Time-Series Trend Analysis (2015-2024)''),
         py_print (py_repeat (ascii ''='') 70),
         py_print ([10] @ ascii ''Trend Calculation Methods:''),
         py_print (ascii ''  - Population-weighted national averages per year''),
         py_print (ascii ''  - Linear regression slope for long-term trend direction''),
         py_print (ascii ''  - Year-over-year percent change (YoY % '' @ [916] @ ascii '')''),
         py_print (ascii ''  - Compound Annual Growth Rate (CAGR)''),
         py_print ([10] @ ascii ''Projected National Trends:''),
         py_print ([10] @ ascii ''  Diabetes Prevalence:''),
         py_print (ascii ''    2015: 9.4% '' @ [8594]
                    @ ascii '' 2024: 11.4% (+2.0 percentage points, +21.3% increase)''),
         py_print (ascii ''    CAGR: 2.1%''),
         py_print ([10] @ ascii ''  Obesity Prevalence:''),
         py_print (ascii ''    2015: 30.2% '' @ [8594]
                    @ ascii '' 2024: 35.1% (+4.9 percentage points, +16.2% increase)''),
         py_print (ascii ''    CAGR: 1.8%''),
         py_print ([10] @ ascii ''  Heart Disease Prevalence:''),
         py_print (ascii ''    2015: 3.9% '' @ [8594]
                    @ ascii '' 2024: 4.8% (+0.9 percentage points, +23.1% increase)''),
         py_print (ascii ''    CAGR: 2.4%''),
         py_print ([10] @ ascii ''  Physical Inactivity:''),
         py_print (ascii ''    2015: 25.4% '' @ [8594]
                    @ ascii '' 2024: 29.5% (+4.1 percentage points, +16.1% increase)''),
         py_print (ascii ''    CAGR: 1.7%'')] out)"

definition analyze_demographic_disparities :: "'a \<Rightarrow> stdout \<Rightarrow> pyval \<times> stdout" where
  "analyze_demographic_disparities df_cleaned out =
     (PyNone, run
        [py_print ([10] @ py_repeat (ascii ''='') 70),
         py_print (ascii ''STEP 5: Demographic Stratification & Health Equity Analysis''),
         py_print (py_repeat (ascii ''='') 70),
         py_print ([10] @ ascii ''Demographic Dimensions Analyzed:''),
         py_print ([10] @ ascii ''  Age Groups (6 categories):''),
         py_print (ascii ''    - 18-24 years''),
         py_print (ascii ''    - 25-34 years''),
         py_print (ascii ''    - 35-44 years''),
         py_print (ascii ''    - 45-54 years''),
         py_print (ascii ''    - 55-64 years''),
         py_print (ascii ''    - 65+ years''),
         py_print ([10] @ ascii ''  Race/Ethnicity (5 categories):''),
         py_print (ascii ''    - Non-Hispanic White''),
         py_print (ascii ''    - Non-Hispanic Black''),
         py_print (ascii ''    - Hispanic''),
         py_print (ascii ''    - Asian/Pacific Islander''),
         py_print (ascii ''    - American Indian/Alaska Native''),
         py_print ([10] @ ascii ''  Income Level (5 brackets):''),
         py_print (ascii ''    - Less than $15,000''),
         py_print (ascii ''    - $15,000-$24,999''),
         py_print (ascii ''    - $25,000-$49,999''),
         py_print (ascii ''    - $50,000-$74,999''),
         py_print (ascii ''    - $75,000 and above''),
         py_print ([10] @ ascii ''Health Equity Insights:''),
         py_print (ascii ''  - Diabetes: 6.6x higher in lowest vs highest income group (14.2% vs 8.1%)''),
         py_print (ascii ''  - Age gradient: 6.7x higher in 65+ vs 18-24 (21.3% vs 3.2%)''),
         py_print (ascii ''  - Racial disparities: 1.9x higher in Native American vs Asian populations''),
         py_print (ascii ''  - Income-health correlation: R'' @ [178]
                    @ ascii '' = 0.78 (strong inverse relationship)'')] out)"

definition perform_correlation_analysis :: "'a \<Rightarrow> stdout \<Rightarrow> pyval \<times> stdout" where
  "perform_correlation_analysis df_cleaned out =
     (PyNone, run
        [py_print ([10] @ py_repeat (ascii ''='') 70),
         py_print (ascii ''STEP 6: Correlation & Risk Factor Analysis''),
         py_print (py_repeat (ascii ''='') 70),
         py_print ([10] @ ascii ''Correlation Analysis Results:''),
         py_print ([10] @ ascii ''  Pearson Correlation Coefficients (0-1 scale):''),
         py_print (ascii ''    - Obesity '' @ [8596]
                    @ ascii '' Diabetes:         r = 0.87 (strong positive)''),
         py_print (ascii ''    - Obesity '' @ [8596]
                    @ ascii '' Heart Disease:   r = 0.84 (strong positive)''),
         py_print (ascii ''    - Obesity '' @ [8596]
                    @ ascii '' Inactivity:      r = 0.82 (strong positive)''),
         py_print (ascii ''    - Diabetes '' @ [8596]
                    @ ascii '' Heart Disease:  r = 0.91 (very strong positive)''),
         py_print (ascii ''    - Inactivity '' @ [8596]
                    @ ascii '' Obesity:      r = 0.80 (strong positive)''),
         py_print ([10] @ ascii ''Linear Regression Model (Obesity '' @ [8594]
                    @ ascii '' Diabetes):''),
         py_print (ascii ''    Formula: Diabetes% = 1.24 + 0.278 '' @ [215] @ ascii '' Obesity%''),
         py_print (ascii ''    R'' @ [178]
                    @ ascii '' = 0.76 (76% of diabetes variation explained by obesity)''),
         py_print (ascii ''    Interpretation: Each 1% increase in obesity '' @ [8594]
                    @ ascii '' 0.28% increase in diabetes''),
         py_print ([10] @ ascii ''Risk Factor Clustering:''),
         py_print (ascii ''    - High-Risk States (elevated all metrics): MS, LA, AR, WV, OK''),
         py_print (ascii ''    - Low-Risk States (all metrics below median): CO, UT, VT, NH, MA''),
         py_print (ascii ''    - Mixed Profile States: Require targeted interventions'')] out)"

section \<open>Step 7: \<^verbatim>\<open>validate_data_quality\<close>\<close>

text \<open>
  \<^verbatim>\<open>qa_checks\<close> is a literal dict of dicts; every inner dict has exactly the keys
  \<^verbatim>\<open>"status"\<close> and \<^verbatim>\<open>"details"\<close>, so it is a record, and the outer dict is the list of its
  items in insertion order, which is the order \<^verbatim>\<open>qa_checks.items()\<close> yields.
\<close>

record qa_result =
  status :: pystr
  details :: pystr

definition qa_checks :: "(pystr \<times> qa_result) list" where
  "qa_checks =
     [(ascii ''Completeness'',
       \<lparr>status = ascii ''PASS'',
        details = ascii ''100% of required fields populated for all 50 states''\<rparr>),
      (ascii ''Range Validation'',
       \<lparr>status = ascii ''PASS'',
        details = ascii ''All percentages 0-100%, all populations > 0''\<rparr>),
      (ascii ''Temporal Consistency'',
       \<lparr>status = ascii ''PASS'',
        details = ascii ''Trends align with CDC publications and epidemiological patterns''\<rparr>),
      (ascii ''Geographic Coverage'',
       \<lparr>status = ascii ''PASS'',
        details = ascii ''All 50 states + DC accounted for''\<rparr>),
      (ascii ''Bounds Checking'',
       \<lparr>status = ascii ''PASS'',
        details = ascii ''All state values within national min-max ranges''\<rparr>),
      (ascii ''Outlier Detection'',
       \<lparr>status = ascii ''PASS'',
        details = ascii ''No extreme outliers detected; IQR validation applied''\<rparr>),
      (ascii ''Cross-validation'',
       \<lparr>status = ascii ''PASS'',
        details = ascii ''Spot-checked against CDC BRFSS published data''\<rparr>)]"

definition status_symbol :: "qa_result \<Rightarrow> pystr" where
  "status_symbol result = (if status result = ascii ''PASS'' then [10003] else [10007])"

definition validate_data_quality :: "stdout \<Rightarrow> pyval \<times> stdout" where
  "validate_data_quality out =
     (PyNone, run
        [py_print ([10] @ py_repeat (ascii ''='') 70),
         py_print (ascii ''STEP 7: Data Validation & Quality Assurance''),
         py_print (py_repeat (ascii ''='') 70),
         py_print ([10] @ ascii ''Quality Assurance Checks:''),
         for_each qa_checks (\<lambda>(check_name, result).
          run [py_print (ascii ''  '' @ status_symbol result @ ascii '' '' @ check_name
                          @ ascii '': '' @ status result),
               py_print (ascii ''      '' @ [9492, 9472] @ ascii '' '' @ details result)])] out)"

section \<open>Steps 8 and 9 and \<^verbatim>\<open>main\<close>\<close>

definition export_to_json :: "stdout \<Rightarrow> pyval \<times> stdout" where
  \<open>export_to_json out =
     (PyNone, run
        [py_print ([10] @ py_repeat (ascii ''='') 70),
         py_print (ascii ''STEP 8: Export to JSON Format''),
         py_print (py_repeat (ascii ''='') 70),
         py_print ([10] @ ascii ''JSON Export Configuration:''),
         py_print (ascii ''  - File format: JSON (UTF-8 encoding)''),
         py_print (ascii ''  - Structure: Nested objects for optimal web consumption''),
         py_print (ascii ''  - Compression: Can be gzip'd for web delivery (~15KB compressed)''),
         py_print (ascii ''  - API compatibility: RESTful JSON schema''),
         py_print ([10] @ ascii ''JSON Schema:''),
         py_print ([10] @ ascii ''  {'' @ [10] @ ascii ''    "states": ['' @ [10]
                    @ ascii ''      {'' @ [10] @ ascii ''        "name": "State Name",'' @ [10]
                    @ ascii ''        "abbr": "ST",'' @ [10]
                    @ ascii ''        "diabetes_pct": <number>,'' @ [10]
                    @ ascii ''        "obesity_pct": <number>,'' @ [10]
                    @ ascii ''        "heart_disease_pct": <number>,'' @ [10]
                    @ ascii ''        "inactivity_pct": <number>,'' @ [10]
                    @ ascii ''        "population": <integer>'' @ [10] @ ascii ''      },'' @ [10]
                    @ ascii ''      ...'' @ [10] @ ascii ''    ],'' @ [10]
                    @ ascii ''    "national_trends": {'' @ [10]
                    @ ascii ''      "years": [<year>, ...],'' @ [10]
                    @ ascii ''      "diabetes": [<pct>, ...],'' @ [10]
                    @ ascii ''      "obesity": [<pct>, ...],'' @ [10]
                    @ ascii ''      "heart_disease": [<pct>, ...],'' @ [10]
                    @ ascii ''      "inactivity": [<pct>, ...]'' @ [10] @ ascii ''    },'' @ [10]
                    @ ascii ''    "demographic_breakdown": {'' @ [10]
                    @ ascii ''      "age_groups": [...],'' @ [10]
                    @ ascii ''      "race_ethnicity": [...],'' @ [10]
                    @ ascii ''      "income_level": [...]'' @ [10] @ ascii ''    }'' @ [10]
                    @ ascii ''  }'' @ [10] @ ascii ''    '')] out)\<close>

text \<open>
  \<open>today\<close> is \<^verbatim>\<open>datetime.now().strftime('%Y-%m-%d')\<close>, the only thing the script reads
  from its environment.
\<close>

definition print_execution_summary :: "pystr \<Rightarrow> stdout \<Rightarrow> pyval \<times> stdout" where
  "print_execution_summary today out =
     (PyNone, run
        [py_print ([10] @ py_repeat (ascii ''='') 70),
         py_print (ascii ''EXECUTION SUMMARY & PERFORMANCE METRICS''),
         py_print (py_repeat (ascii ''='') 70),
         py_print ([10] @ ascii ''Data Processing Pipeline Performance:''),
         py_print (ascii ''  Total records processed: ~15,000 (50 states '' @ [215]
                    @ ascii '' 10 years '' @ [215] @ ascii '' demographics)''),
         py_print (ascii ''  Processing time: ~0.5 seconds (typical)''),
         py_print (ascii ''  Data quality score: 98.2%''),
         py_print (ascii ''  Memory usage: ~45 MB (full pipeline)''),
         py_print ([10] @ ascii ''Output Files Generated:''),
         py_print (ascii ''  '' @ [10003] @ ascii '' state_health_data.json (35 KB)''),
         py_print (ascii ''  '' @ [10003] @ ascii '' data_validation_report.txt (optional)''),
         py_print (ascii ''  '' @ [10003] @ ascii '' correlation_matrix.csv (optional)''),
         py_print ([10] @ ascii ''Data Lineage & Reproducibility:''),
         py_print (ascii ''  - Source: CDC BRFSS (Behavioral Risk Factor Surveillance System)''),
         py_print (ascii ''  - CDC NHIS (National Health Interview Survey)''),
         py_print (ascii ''  - Extraction date: '' @ today),
         py_print (ascii ''  - Version: 2024 (latest available data)''),
         py_print (ascii ''  - Reproducible: Yes (Python 3.8+, pandas 1.x, numpy 1.x)'')] out)"

definition main :: "pystr \<Rightarrow> stdout \<Rightarrow> pyval \<times> stdout" where
  "main today out =
     (PyNone, run
        [py_print ([10]),
         py_print ([9556] @ py_repeat ([9552]) 68 @ [9559]),
         py_print ([9553] @ py_repeat (ascii '' '') 68 @ [9553]),
         py_print ([9553]
                    @ py_center (ascii ''  HEALTHCARE ANALYTICS DASHBOARD - DATA PREPARATION PIPELINE  '') 68
                    @ [9553]),
         py_print ([9553] @ py_repeat (ascii '' '') 68 @ [9553]),
         py_print ([9562] @ py_repeat ([9552]) 68 @ [9565]),
         call load_raw_data,
         call (clean_and_standardize_data PyNone),
         call (aggregate_state_level_data PyNone),
         call (calculate_national_trends PyNone),
         call (analyze_demographic_disparities PyNone),
         call (perform_correlation_analysis PyNone),
         call validate_data_quality,
         call export_to_json,
         call (print_execution_summary today),
         py_print ([10] @ py_repeat (ascii ''='') 70),
         py_print ([10003] @ ascii '' DATA PREPARATION PIPELINE COMPLETED SUCCESSFULLY''),
         py_print (py_repeat (ascii ''='') 70),
         py_print ([10]
                    @ ascii ''Next Step: Open index.html in a web browser to view the dashboard''),
         py_print (py_repeat (ascii ''='') 70 @ [10])] out)"

section \<open>Datasets and what a result reports\<close>

text \<open>
  A dataset is a table with the eleven columns that \<^verbatim>\<open>load_raw_data\<close> lists, one
  record for each row.
\<close>

record brfss_row =
  year :: int
  state :: pystr
  diabetes_percentage :: rat
  obesity_percentage :: rat
  heart_disease_percentage :: rat
  physical_inactivity_percentage :: rat
  population :: int
  age_group :: pystr
  race_ethnicity :: pystr
  income_level :: pystr
  sample_size :: int

text \<open>A row whose four metrics all have the value \<open>v\<close>.\<close>

definition row :: "int \<Rightarrow> pystr \<Rightarrow> rat \<Rightarrow> int \<Rightarrow> brfss_row" where
  "row y s v p =
     \<lparr>year = y, state = s, diabetes_percentage = v, obesity_percentage = v,
      heart_disease_percentage = v, physical_inactivity_percentage = v, population = p,
      age_group = ascii ''45-54'', race_ethnicity = ascii ''Hispanic'',
      income_level = ascii ''$25,000-$49,999'', sample_size = 1200\<rparr>"

text \<open>One state with one value, and the same group with another value.\<close>

definition single_value_group :: "brfss_row list" where
  "single_value_group = [row 2024 (ascii ''Alabama'') (25 / 2) 5000000]"

definition other_value_group :: "brfss_row list" where
  "other_value_group = [row 2024 (ascii ''Alabama'') 50 5000000]"


text \<open>Two states of one year with the same population.\<close>

definition equal_population_states :: "brfss_row list" where
  "equal_population_states =
     [row 2024 (ascii ''Alabama'') 10 1000000, row 2024 (ascii ''Alaska'') 20 1000000]"

text \<open>A national series of three years that grows by a tenth each year.\<close>

definition growth_series :: "brfss_row list" where
  "growth_series =
     [row 2015 (ascii ''Alabama'') 10 1000000,
      row 2016 (ascii ''Alabama'') 11 1000000,
      row 2017 (ascii ''Alabama'') (121 / 10) 1000000]"

text \<open>Three states; in each of them obesity and diabetes have the same value.\<close>

definition identical_metric_states :: "brfss_row list" where
  "identical_metric_states =
     [row 2024 (ascii ''Alabama'') 10 1000000,
      row 2024 (ascii ''Alaska'') 20 1000000,
      row 2024 (ascii ''Arizona'') 30 1000000]"

text \<open>
  The numbers held anywhere inside a returned value. A result reports \<open>v\<close> when \<open>v\<close> is
  one of them: the weakest sense in which a function can be said to return a statistic.
\<close>

fun number_of :: "pyval \<Rightarrow> rat list" where
  "number_of (PyNum q) = [q]"
| "number_of _ = []"

definition py_numbers :: "pyval \<Rightarrow> rat list" where
  "py_numbers v = concat (map number_of (py_values v))"

definition reports :: "pyval \<times> stdout \<Rightarrow> rat \<Rightarrow> bool" where
  "reports res v = (v \<in> set (py_numbers (fst res)))"

text \<open>The printed strs that contain \<open>w\<close> (\<^verbatim>\<open>w in line\<close>).\<close>

definition printed_lines_with :: "pystr \<Rightarrow> stdout \<Rightarrow> pystr list" where
  "printed_lines_with w out = filter (sublist w) out"

section \<open>The formulas of the specification\<close>


definition spec_mean :: "rat list \<Rightarrow> rat option" where
  "spec_mean vs = (if vs = [] then None else Some (sum_list vs / of_nat (length vs)))"

definition spec_weighted_average :: "(rat \<times> int) list \<Rightarrow> rat option" where
  "spec_weighted_average vps =
     (if sum_list (map snd vps) = 0 then None
      else Some (sum_list (map (\<lambda>vp. fst vp * of_int (snd vp)) vps)
                 / of_int (sum_list (map snd vps))))"

definition spec_yoy :: "rat \<Rightarrow> rat \<Rightarrow> rat option" where
  "spec_yoy prev current = (if prev = 0 then None else Some ((current - prev) / prev * 100))"

definition spec_growth_series :: "rat \<Rightarrow> rat \<Rightarrow> nat \<Rightarrow> rat list" where
  "spec_growth_series start r n = map (\<lambda>i. start * (1 + r) ^ i) [0..<n]"

section \<open>What the stages return and print\<close>

lemmas stmt_defs = run_def for_each_def call_def py_print_def


lemma aggregate_state_level_data_ignores:
  "aggregate_state_level_data x out = aggregate_state_level_data y out"
  by (simp add: aggregate_state_level_data_def)

lemma calculate_national_trends_ignores:
  "calculate_national_trends x out = calculate_national_trends y out"
  by (simp add: calculate_national_trends_def)

lemma perform_correlation_analysis_ignores:
  "perform_correlation_analysis x out = perform_correlation_analysis y out"
  by (simp add: perform_correlation_analysis_def)

lemma clean_and_standardize_data_None: "fst (clean_and_standardize_data x out) = PyNone"
  by (simp add: clean_and_standardize_data_def)

lemma aggregate_state_level_data_None: "fst (aggregate_state_level_data x out) = PyNone"
  by (simp add: aggregate_state_level_data_def)

lemma calculate_national_trends_None: "fst (calculate_national_trends x out) = PyNone"
  by (simp add: calculate_national_trends_def)

lemma perform_correlation_analysis_None: "fst (perform_correlation_analysis x out) = PyNone"
  by (simp add: perform_correlation_analysis_def)

lemma validate_data_quality_None: "fst (validate_data_quality out) = PyNone"
  by (simp add: validate_data_quality_def)

lemma export_to_json_None: "fst (export_to_json out) = PyNone"
  by (simp add: export_to_json_def)

lemma main_None: "fst (main today out) = PyNone"
  by (simp add: main_def)

lemma py_numbers_None: "py_numbers PyNone = []"
  by (simp add: py_numbers_def)

text \<open>Searching the printed lines.\<close>

lemma not_sublist_replicate: "x \<noteq> c \<Longrightarrow> \<not> sublist (x # xs) (replicate n c)"
proof
  assume ne: "x \<noteq> c" and sub: "sublist (x # xs) (replicate n c)"
  from sub have "set (x # xs) \<subseteq> set (replicate n c)" by (rule set_mono_sublist)
  then have "x \<in> set (replicate n c)" by simp
  then show False using ne by simp
qed

lemmas line_search = printed_lines_with_def stmt_defs ascii_def py_repeat_def
  sublist_Cons_right not_sublist_replicate

lemma calculate_national_trends_cagr_lines:
  "printed_lines_with (ascii ''CAGR: '') (snd (calculate_national_trends df [])) =
     [ascii ''    CAGR: 2.1%'', ascii ''    CAGR: 1.8%'',
      ascii ''    CAGR: 2.4%'', ascii ''    CAGR: 1.7%'']"
  by (simp add: calculate_national_trends_def line_search)

lemma perform_correlation_analysis_r_lines:
  "printed_lines_with (ascii ''r = '') (snd (perform_correlation_analysis df [])) =
     [ascii ''    - Obesity '' @ [8596] @ ascii '' Diabetes:         r = 0.87 (strong positive)'',
      ascii ''    - Obesity '' @ [8596] @ ascii '' Heart Disease:   r = 0.84 (strong positive)'',
      ascii ''    - Obesity '' @ [8596] @ ascii '' Inactivity:      r = 0.82 (strong positive)'',
      ascii ''    - Diabetes '' @ [8596] @ ascii '' Heart Disease:  r = 0.91 (very strong positive)'',
      ascii ''    - Inactivity '' @ [8596] @ ascii '' Obesity:      r = 0.80 (strong positive)'']"
  by (simp add: perform_correlation_analysis_def line_search)

lemma validate_data_quality_no_degraded:
  "printed_lines_with (ascii ''degraded'') (snd (validate_data_quality [])) = []"
  by (simp add: validate_data_quality_def qa_checks_def status_symbol_def line_search)

lemma export_to_json_no_degraded:
  "printed_lines_with (ascii ''degraded'') (snd (export_to_json [])) = []"
  by (simp add: export_to_json_def line_search)

lemma export_to_json_no_metadata:
  "printed_lines_with (ascii ''metadata'') (snd (export_to_json [])) = []"
  by (simp add: export_to_json_def line_search)

text \<open>The lookups that the loops of \<^verbatim>\<open>load_raw_data\<close> make in the literal dict.\<close>

lemma raw_data_schema_lookups:
  "py_getitem raw_data_schema (ascii ''columns'') =
     Inr (PyList (map PyStr raw_data_schema_columns))"
  "py_getitem raw_data_schema (ascii ''data_sources'') =
     Inr (PyList (map PyStr raw_data_schema_data_sources))"
  by (simp_all add: raw_data_schema_def ascii_def)

lemma load_raw_data_returns: "fst (load_raw_data out) = raw_data_schema"
  by (simp add: load_raw_data_def)

lemma calculate_national_trends_yoy_lines:
  "printed_lines_with (ascii ''YoY'') (snd (calculate_national_trends df [])) =
     [ascii ''  - Year-over-year percent change (YoY % '' @ [916] @ ascii '')'']"
  by (simp add: calculate_national_trends_def line_search)

lemma aggregate_state_level_data_no_mean_printed:
  "printed_lines_with (ascii ''12.5'') (snd (aggregate_state_level_data df [])) = []"
  by (simp add: aggregate_state_level_data_def aggregation_methods_def line_search)

lemmas output_eval = stmt_defs ascii_def py_repeat_def

lemmas main_defs = main_def load_raw_data_def clean_and_standardize_data_def
  aggregate_state_level_data_def calculate_national_trends_def
  analyze_demographic_disparities_def perform_correlation_analysis_def
  validate_data_quality_def export_to_json_def print_execution_summary_def
  raw_data_schema_columns_def raw_data_schema_data_sources_def cleaning_operations_def
  aggregation_methods_def qa_checks_def

section \<open>The claims\<close>


text \<open>
  C3. The docstring of \<^verbatim>\<open>aggregate_state_level_data\<close> lists the mean prevalence for each
  state among its calculations. The code at a group of one state with the one value 12.5,
  whose mean is 12.5: it returns \<^verbatim>\<open>None\<close>, a value that holds no number, it prints the
  report below, in which 12.5 does not occur, and it does the same on the group with the
  value 50.
\<close>

theorem aggregate_state_level_data_at_single_value_group:
  "spec_mean (map diabetes_percentage single_value_group) = Some (25 / 2) \<and>
   aggregate_state_level_data single_value_group [] =
    (PyNone,
     [[10] @ py_repeat (ascii ''='') 70,
      ascii ''STEP 3: State-Level Aggregation'',
      py_repeat (ascii ''='') 70,
      [10] @ ascii ''Aggregation Methods:'',
      ascii ''  - Mean (arithmetic average) - default for most metrics'',
      ascii ''  - Population-weighted average - for national estimates'',
      ascii ''  - Median - used for robustness check against outliers'',
      ascii ''  - Standard Deviation - measure of variability within state'',
      ascii ''  - Min/Max - range of observed values'',
      ascii ''  - Mode (most frequent value) - for categorical data'',
      [10] @ ascii ''Key Calculations (most recent year):'',
      ascii ''  - Total States: 50'',
      ascii ''  - Diabetes prevalence range: 8.4% to 14.2%'',
      ascii ''  - Obesity prevalence range: 27.5% to 40.8%'',
      ascii ''  - Heart disease range: 3.6% to 6.3%'',
      ascii ''  - Physical inactivity range: 21.9% to 37.5%'']) \<and>
   \<not> reports (aggregate_state_level_data single_value_group []) (25 / 2) \<and>
   printed_lines_with (ascii ''12.5'')
     (snd (aggregate_state_level_data single_value_group [])) = [] \<and>
   spec_mean (map diabetes_percentage other_value_group) = Some 50 \<and>
   aggregate_state_level_data single_value_group [] =
     aggregate_state_level_data other_value_group []"
  apply (intro conjI)
  subgoal by (simp add: spec_mean_def single_value_group_def row_def)
  subgoal by (simp add: aggregate_state_level_data_def aggregation_methods_def output_eval)
  subgoal by (simp add: reports_def aggregate_state_level_data_None py_numbers_None)
  subgoal by (rule aggregate_state_level_data_no_mean_printed)
  subgoal by (simp add: spec_mean_def other_value_group_def row_def)
  subgoal by (rule aggregate_state_level_data_ignores)
  done

text \<open>
  C4. The docstring of \<^verbatim>\<open>calculate_national_trends\<close> gives the national value of a year
  as the sum of value times population over the sum of population. The code at two states
  of one year with populations of 1000000 each and the values 10 and 20, whose weighted
  average and unweighted mean are both 15: it returns \<^verbatim>\<open>None\<close>, a value that holds no
  number, it prints the report below, and it does the same on a dataset whose average
  is 12.5.
\<close>

theorem calculate_national_trends_at_equal_population_states:
  "spec_weighted_average
     (map (\<lambda>r. (diabetes_percentage r, population r)) equal_population_states) = Some 15 \<and>
   spec_mean (map diabetes_percentage equal_population_states) = Some 15 \<and>
   calculate_national_trends equal_population_states [] =
    (PyNone,
     [[10] @ py_repeat (ascii ''='') 70,
      ascii ''STEP 4: Time-Series Trend Analysis (2015-2024)'',
      py_repeat (ascii ''='') 70,
      [10] @ ascii ''Trend Calculation Methods:'',
      ascii ''  - Population-weighted national averages per year'',
      ascii ''  - Linear regression slope for long-term trend direction'',
      ascii ''  - Year-over-year percent change (YoY % '' @ [916] @ ascii '')'',
      ascii ''  - Compound Annual Growth Rate (CAGR)'',
      [10] @ ascii ''Projected National Trends:'',
      [10] @ ascii ''  Diabetes Prevalence:'',
      ascii ''    2015: 9.4% '' @ [8594]
        @ ascii '' 2024: 11.4% (+2.0 percentage points, +21.3% increase)'',
      ascii ''    CAGR: 2.1%'',
      [10] @ ascii ''  Obesity Prevalence:'',
      ascii ''    2015: 30.2% '' @ [8594]
        @ ascii '' 2024: 35.1% (+4.9 percentage points, +16.2% increase)'',
      ascii ''    CAGR: 1.8%'',
      [10] @ ascii ''  Heart Disease Prevalence:'',
      ascii ''    2015: 3.9% '' @ [8594]
        @ ascii '' 2024: 4.8% (+0.9 percentage points, +23.1% increase)'',
      ascii ''    CAGR: 2.4%'',
      [10] @ ascii ''  Physical Inactivity:'',
      ascii ''    2015: 25.4% '' @ [8594]
        @ ascii '' 2024: 29.5% (+4.1 percentage points, +16.1% increase)'',
      ascii ''    CAGR: 1.7%'']) \<and>
   \<not> reports (calculate_national_trends equal_population_states []) 15 \<and>
   calculate_national_trends equal_population_states [] =
     calculate_national_trends single_value_group []"
  apply (intro conjI)
  subgoal by (simp add: spec_weighted_average_def equal_population_states_def row_def)
  subgoal by (simp add: spec_mean_def equal_population_states_def row_def)
  subgoal by (simp add: calculate_national_trends_def output_eval)
  subgoal by (simp add: reports_def calculate_national_trends_None py_numbers_None)
  subgoal by (rule calculate_national_trends_ignores)
  done

text \<open>
  C5. The docstring of \<^verbatim>\<open>calculate_national_trends\<close> lists the compound annual growth
  rate among its methods. The code at the series 10, 11, 12.1, which starts above zero, has
  three years and grows by exactly 0.1 per year: it returns \<^verbatim>\<open>None\<close>, a value that holds
  no number at all, so none within 1e-9 of 0.1, and the CAGR lines it prints are 2.1%, 1.8%,
  2.4% and 1.7%.
\<close>

theorem calculate_national_trends_at_growth_series:
  "map diabetes_percentage growth_series = spec_growth_series 10 (1 / 10) 3 \<and>
   fst (calculate_national_trends growth_series []) = PyNone \<and>
   py_numbers (fst (calculate_national_trends growth_series [])) = [] \<and>
   \<not> reports (calculate_national_trends growth_series []) (1 / 10) \<and>
   printed_lines_with (ascii ''CAGR: '') (snd (calculate_national_trends growth_series [])) =
     [ascii ''    CAGR: 2.1%'', ascii ''    CAGR: 1.8%'',
      ascii ''    CAGR: 2.4%'', ascii ''    CAGR: 1.7%'']"
  apply (intro conjI)
  subgoal by (simp add: spec_growth_series_def growth_series_def row_def upt_rec
                power2_eq_square)
  subgoal by (rule calculate_national_trends_None)
  subgoal by (simp add: calculate_national_trends_None py_numbers_None)
  subgoal by (simp add: reports_def calculate_national_trends_None py_numbers_None)
  subgoal by (rule calculate_national_trends_cagr_lines)
  done

text \<open>
  C6. The SQL in the docstring of \<^verbatim>\<open>calculate_national_trends\<close> gives the year-over-year
  change as the difference to the previous year over the previous year times 100. The code
  at the series 10, 11, 12.1, whose change in the second year is (11 - 10) / 10 * 100 = 10:
  it returns \<^verbatim>\<open>None\<close>, a value that holds no number, and the only line it prints about
  the year-over-year change is the name of the method.
\<close>

theorem calculate_national_trends_year_over_year:
  "take 2 (map diabetes_percentage growth_series) = [10, 11] \<and>
   spec_yoy 10 11 = Some 10 \<and>
   fst (calculate_national_trends growth_series []) = PyNone \<and>
   \<not> reports (calculate_national_trends growth_series []) 10 \<and>
   printed_lines_with (ascii ''YoY'') (snd (calculate_national_trends growth_series [])) =
     [ascii ''  - Year-over-year percent change (YoY % '' @ [916] @ ascii '')'']"
  apply (intro conjI)
  subgoal by (simp add: growth_series_def row_def)
  subgoal by (simp add: spec_yoy_def)
  subgoal by (rule calculate_national_trends_None)
  subgoal by (simp add: reports_def calculate_national_trends_None py_numbers_None)
  subgoal by (rule calculate_national_trends_yoy_lines)
  done

text \<open>
  C7. The docstring of \<^verbatim>\<open>perform_correlation_analysis\<close> names the Pearson correlation
  matrix. The code at three states in which obesity and diabetes have the same values 10,
  20, 30, so that the coefficient of the two metrics is that of a series with itself: it
  returns \<^verbatim>\<open>None\<close>, a value that holds no number, so not 1, and the coefficients it
  prints are 0.87, 0.84, 0.82, 0.91 and 0.80.
\<close>

theorem perform_correlation_analysis_at_identical_metric_states:
  "map diabetes_percentage identical_metric_states = [10, 20, 30] \<and>
   map obesity_percentage identical_metric_states =
     map diabetes_percentage identical_metric_states \<and>
   fst (perform_correlation_analysis identical_metric_states []) = PyNone \<and>
   \<not> reports (perform_correlation_analysis identical_metric_states []) 1 \<and>
   printed_lines_with (ascii ''r = '')
       (snd (perform_correlation_analysis identical_metric_states [])) =
     [ascii ''    - Obesity '' @ [8596] @ ascii '' Diabetes:         r = 0.87 (strong positive)'',
      ascii ''    - Obesity '' @ [8596] @ ascii '' Heart Disease:   r = 0.84 (strong positive)'',
      ascii ''    - Obesity '' @ [8596] @ ascii '' Inactivity:      r = 0.82 (strong positive)'',
      ascii ''    - Diabetes '' @ [8596] @ ascii '' Heart Disease:  r = 0.91 (very strong positive)'',
      ascii ''    - Inactivity '' @ [8596] @ ascii '' Obesity:      r = 0.80 (strong positive)'']"
  apply (intro conjI)
  subgoal by (simp add: identical_metric_states_def row_def)
  subgoal by (simp add: identical_metric_states_def row_def)
  subgoal by (rule perform_correlation_analysis_None)
  subgoal by (simp add: reports_def perform_correlation_analysis_None py_numbers_None)
  subgoal by (rule perform_correlation_analysis_r_lines)
  done

text \<open>
  C8, as stated, fails. \<^verbatim>\<open>validate_data_quality\<close> has no parameter, so no rejection rate
  reaches it; it returns \<^verbatim>\<open>None\<close> and prints no line with the word "degraded".
  \<^verbatim>\<open>export_to_json\<close> returns \<^verbatim>\<open>None\<close> too, and the JSON schema it prints has neither
  "degraded" nor "metadata" in it.
\<close>

theorem degraded_flag_counterexample:
  "fst (validate_data_quality []) = PyNone \<and>
   printed_lines_with (ascii ''degraded'') (snd (validate_data_quality [])) = [] \<and>
   fst (export_to_json []) = PyNone \<and>
   printed_lines_with (ascii ''degraded'') (snd (export_to_json [])) = [] \<and>
   printed_lines_with (ascii ''metadata'') (snd (export_to_json [])) = []"
  by (simp only: validate_data_quality_None export_to_json_None
        validate_data_quality_no_degraded export_to_json_no_degraded
        export_to_json_no_metadata simp_thms)

text \<open>
  C8, amended. For every pipeline run \<^verbatim>\<open>validate_data_quality\<close> takes no rejection rate
  and sets no degraded flag: after any output it returns \<^verbatim>\<open>None\<close> and prints exactly the
  report below, in which each of the seven checks has the check mark and the status PASS and
  the word "degraded" does not occur. \<^verbatim>\<open>export_to_json\<close> returns \<^verbatim>\<open>None\<close>, and what it
  prints has neither "degraded" nor "metadata" in it. The run completes: \<^verbatim>\<open>main\<close>
  returns \<^verbatim>\<open>None\<close> after 176 calls of \<^verbatim>\<open>print\<close>, the last five of which print the
  banner of success.
\<close>

theorem validate_data_quality_always_passes:
  "validate_data_quality out =
    (PyNone, out @
     [[10] @ py_repeat (ascii ''='') 70,
      ascii ''STEP 7: Data Validation & Quality Assurance'',
      py_repeat (ascii ''='') 70,
      [10] @ ascii ''Quality Assurance Checks:'',
      ascii ''  '' @ [10003] @ ascii '' Completeness: PASS'',
      ascii ''      '' @ [9492, 9472]
        @ ascii '' 100% of required fields populated for all 50 states'',
      ascii ''  '' @ [10003] @ ascii '' Range Validation: PASS'',
      ascii ''      '' @ [9492, 9472] @ ascii '' All percentages 0-100%, all populations > 0'',
      ascii ''  '' @ [10003] @ ascii '' Temporal Consistency: PASS'',
      ascii ''      '' @ [9492, 9472]
        @ ascii '' Trends align with CDC publications and epidemiological patterns'',
      ascii ''  '' @ [10003] @ ascii '' Geographic Coverage: PASS'',
      ascii ''      '' @ [9492, 9472] @ ascii '' All 50 states + DC accounted for'',
      ascii ''  '' @ [10003] @ ascii '' Bounds Checking: PASS'',
      ascii ''      '' @ [9492, 9472]
        @ ascii '' All state values within national min-max ranges'',
      ascii ''  '' @ [10003] @ ascii '' Outlier Detection: PASS'',
      ascii ''      '' @ [9492, 9472]
        @ ascii '' No extreme outliers detected; IQR validation applied'',
      ascii ''  '' @ [10003] @ ascii '' Cross-validation: PASS'',
      ascii ''      '' @ [9492, 9472] @ ascii '' Spot-checked against CDC BRFSS published data'']) \<and>
   printed_lines_with (ascii ''degraded'') (snd (validate_data_quality [])) = [] \<and>
   fst (export_to_json out) = PyNone \<and>
   printed_lines_with (ascii ''degraded'') (snd (export_to_json [])) = [] \<and>
   printed_lines_with (ascii ''metadata'') (snd (export_to_json [])) = [] \<and>
   fst (main today out) = PyNone \<and>
   length (snd (main today [])) = 176 \<and>
   drop 171 (snd (main today [])) =
     [[10] @ py_repeat (ascii ''='') 70,
      [10003] @ ascii '' DATA PREPARATION PIPELINE COMPLETED SUCCESSFULLY'',
      py_repeat (ascii ''='') 70,
      [10] @ ascii ''Next Step: Open index.html in a web browser to view the dashboard'',
      py_repeat (ascii ''='') 70 @ [10]]"
  apply (intro conjI)
  subgoal by (simp add: validate_data_quality_def qa_checks_def status_symbol_def output_eval)
  subgoal by (rule validate_data_quality_no_degraded)
  subgoal by (rule export_to_json_None)
  subgoal by (rule export_to_json_no_degraded)
  subgoal by (rule export_to_json_no_metadata)
  subgoal by (rule main_None)
  subgoal by (simp add: main_defs stmt_defs)
  subgoal by (simp add: main_defs output_eval)
  done

text \<open>
  C9. The value returned by each of \<^verbatim>\<open>clean_and_standardize_data\<close>,
  \<^verbatim>\<open>aggregate_state_level_data\<close>, \<^verbatim>\<open>calculate_national_trends\<close> and
  \<^verbatim>\<open>perform_correlation_analysis\<close> does not depend on the argument: for any two
  arguments \<open>x\<close> and \<open>y\<close>, of any type and after any output, the stage returns
  \<^verbatim>\<open>None\<close> on both.
\<close>

theorem stage_return_independent_of_input:
  "fst (clean_and_standardize_data x out) = PyNone \<and>
   fst (clean_and_standardize_data y out') = PyNone \<and>
   fst (aggregate_state_level_data x out) = PyNone \<and>
   fst (aggregate_state_level_data y out') = PyNone \<and>
   fst (calculate_national_trends x out) = PyNone \<and>
   fst (calculate_national_trends y out') = PyNone \<and>
   fst (perform_correlation_analysis x out) = PyNone \<and>
   fst (perform_correlation_analysis y out') = PyNone"
  by (simp only: clean_and_standardize_data_None aggregate_state_level_data_None
        calculate_national_trends_None perform_correlation_analysis_None simp_thms)

text \<open>
  C10. \<^verbatim>\<open>load_raw_data\<close> returns the same dict on every call. Its keys are "columns",
  "expected_rows" and "data_sources"; "columns" is the list of the eleven distinct field
  names; and apart from the dict and its two lists everything in it is a str, so it holds
  no data row.
\<close>

theorem load_raw_data_constant_schema:
  "fst (load_raw_data out) = fst (load_raw_data out') \<and>
   py_keys (fst (load_raw_data out)) =
     Inr [ascii ''columns'', ascii ''expected_rows'', ascii ''data_sources''] \<and>
   py_getitem (fst (load_raw_data out)) (ascii ''columns'') =
     Inr (PyList (map PyStr
       [ascii ''year'', ascii ''state'', ascii ''diabetes_percentage'',
        ascii ''obesity_percentage'', ascii ''heart_disease_percentage'',
        ascii ''physical_inactivity_percentage'', ascii ''population'', ascii ''age_group'',
        ascii ''race_ethnicity'', ascii ''income_level'', ascii ''sample_size''])) \<and>
   length raw_data_schema_columns = 11 \<and>
   distinct raw_data_schema_columns \<and>
   filter (\<lambda>v. \<not> is_str v) (py_values (fst (load_raw_data out))) =
     [raw_data_schema, PyList (map PyStr raw_data_schema_columns),
      PyList (map PyStr raw_data_schema_data_sources)]"
  unfolding load_raw_data_returns
proof (intro conjI)
  show "raw_data_schema = raw_data_schema"
    by (rule refl)
  show "py_keys raw_data_schema =
      Inr [ascii ''columns'', ascii ''expected_rows'', ascii ''data_sources'']"
    by (simp add: raw_data_schema_def)
  show "py_getitem raw_data_schema (ascii ''columns'') =
     Inr (PyList (map PyStr
       [ascii ''year'', ascii ''state'', ascii ''diabetes_percentage'',
        ascii ''obesity_percentage'', ascii ''heart_disease_percentage'',
        ascii ''physical_inactivity_percentage'', ascii ''population'', ascii ''age_group'',
        ascii ''race_ethnicity'', ascii ''income_level'', ascii ''sample_size'']))"
    by (simp add: raw_data_schema_lookups raw_data_schema_columns_def)
  show "length raw_data_schema_columns = 11"
    by (simp add: raw_data_schema_columns_def)
  show "distinct raw_data_schema_columns"
    by (simp add: raw_data_schema_columns_def ascii_def)
  show "filter (\<lambda>v. \<not> is_str v) (py_values raw_data_schema) =
     [raw_data_schema, PyList (map PyStr raw_data_schema_columns),
      PyList (map PyStr raw_data_schema_data_sources)]"
    by (simp add: raw_data_schema_def raw_data_schema_columns_def
          raw_data_schema_data_sources_def)
qed

end
